theory Spec2Isabelle
  imports Main "HOL-Library.Char_ord" "HOL-Library.List_Lexorder"
begin

section \<open>Strings and the validator library\<close>

text \<open>
  The controllers receive form fields as JavaScript strings. A \<^typ>\<open>string\<close> stands for
  such a string, each \<^typ>\<open>char\<close> for the UTF-16 code unit of the same number, which
  covers ASCII and Latin-1 text. A field of the parsed body is a \<^typ>\<open>string option\<close>:
  \<open>None\<close> is a field the form did not send (\<^verbatim>\<open>undefined\<close>).
\<close>

definition to_string :: "string option \<Rightarrow> string" where
  \<comment> \<open>express-validator's \<^verbatim>\<open>toString\<close>: a missing value becomes the empty string.\<close>
  "to_string v = (case v of None \<Rightarrow> [] | Some s \<Rightarrow> s)"

definition is_space :: "char \<Rightarrow> bool" where
  \<comment> \<open>The code units below 256 that the regular expression class \<^verbatim>\<open>\s\<close> matches.\<close>
  "is_space c = (c \<in> {CHR 0x09, CHR 0x0A, CHR 0x0B, CHR 0x0C, CHR 0x0D, CHR 0x20, CHR 0xA0})"

definition ltrim :: "string \<Rightarrow> string" where
  "ltrim s = dropWhile is_space s"

definition rtrim :: "string \<Rightarrow> string" where
  "rtrim s = rev (dropWhile is_space (rev s))"

definition trim :: "string \<Rightarrow> string" where
  \<comment> \<open>\<^verbatim>\<open>.trim()\<close> with no character set: \<^verbatim>\<open>rtrim(ltrim(str))\<close>.\<close>
  "trim s = rtrim (ltrim s)"

definition isLength :: "string \<Rightarrow> nat \<Rightarrow> bool" where
  \<comment> \<open>\<^verbatim>\<open>.isLength({ min: n })\<close>: at least \<open>n\<close> characters, no upper bound.\<close>
  "isLength s n = (n \<le> length s)"

definition escape_char :: "char \<Rightarrow> string" where
  "escape_char c =
     (if c = CHR ''&'' then ''&amp;''
      else if c = CHR 0x22 then ''&quot;''
      else if c = CHR 0x27 then ''&#x27;''
      else if c = CHR ''<'' then ''&lt;''
      else if c = CHR ''>'' then ''&gt;''
      else if c = CHR ''/'' then ''&#x2F;''
      else if c = CHR 0x5C then ''&#x5C;''
      else if c = CHR 0x60 then ''&#96;''
      else [c])"

definition escape :: "string \<Rightarrow> string" where
  \<comment> \<open>\<^verbatim>\<open>.escape()\<close>: the eight HTML-sensitive characters become entities.\<close>
  "escape s = concat (map escape_char s)"

record verror =
  path :: string
  msg :: string
  "value" :: string

definition string_chain :: "string \<Rightarrow> string \<Rightarrow> nat \<Rightarrow> string option \<Rightarrow> string \<times> verror list" where
  \<comment> \<open>\<^verbatim>\<open>body(field, message).trim().isLength({ min: n }).escape()\<close>: the sanitised
      value left in \<^verbatim>\<open>req.body\<close>, and the errors the chain records. The length is
      checked on the trimmed value, before escaping; the sanitisers run either way.\<close>
  "string_chain field message n v =
     (let s = trim (to_string v)
      in (escape s,
          if isLength s n then [] else [\<lparr>path = field, msg = message, value = s\<rparr>]))"

section \<open>Documents and the document store\<close>

text \<open>
  An object id is kept by its text form, 24 hexadecimal digits. A request carries id
  text; the mapper casts it when it builds a query or a document, and text that is no
  object id makes the query fail with a cast error. The handlers for GET requests take
  the id text of the URL (\<^verbatim>\<open>req.params.id\<close>) and cast it as the mapper does. The
  handlers for POST requests are modelled from the cast id on: what they do with id text
  that is no object id is not part of the model.
\<close>

datatype oid = ObjectId string

fun hex :: "oid \<Rightarrow> string" where
  "hex (ObjectId s) = s"

definition lower :: "char \<Rightarrow> char" where
  "lower c =
     (case map_of (zip ''ABCDEFGHIJKLMNOPQRSTUVWXYZ'' ''abcdefghijklmnopqrstuvwxyz'') c of
        None \<Rightarrow> c
      | Some d \<Rightarrow> d)"

definition is_hex_digit :: "char \<Rightarrow> bool" where
  "is_hex_digit c = (c \<in> set ''0123456789abcdefABCDEF'')"

definition cast_oid :: "string \<Rightarrow> oid option" where
  \<comment> \<open>The mapper's cast of text to an object id; \<open>None\<close> when the text is no id.\<close>
  "cast_oid s =
     (if length s = 24 \<and> list_all is_hex_digit s then Some (ObjectId (map lower s)) else None)"

record genre =
  genre_id :: oid
  genre_name :: string

text \<open>
  Modelled from the spec: \<^verbatim>\<open>models/book.js\<close> is not among the sources. A book
  carries a title and the genres it references; \<^verbatim>\<open>Book.find({ genre: id })\<close> selects
  the books that reference \<open>id\<close>.
\<close>

record book =
  book_id :: oid
  title :: string
  book_genre :: "oid list"

text \<open>
  A stored copy of a book. The document keeps its reference to the book only when the
  submitted text was an object id, and its date in one of the three states a document
  path can be in.
\<close>

datatype date_field = Unset | Null | Date int

record bookinstance =
  instance_id :: oid
  book_ref :: "oid option"
  imprint :: string
  status :: string
  due_back :: date_field

text \<open>
  A collection is the list of its documents in storage order; the store is what the
  handlers read and write, passed in and returned.
\<close>

record store =
  genres :: "genre list"
  books :: "book list"
  instances :: "bookinstance list"

fun delete_first :: "('a \<Rightarrow> bool) \<Rightarrow> 'a list \<Rightarrow> 'a list" where
  "delete_first P [] = []"
| "delete_first P (x # xs) = (if P x then xs else x # delete_first P xs)"

fun update_first :: "('a \<Rightarrow> bool) \<Rightarrow> ('a \<Rightarrow> 'a) \<Rightarrow> 'a list \<Rightarrow> 'a list" where
  "update_first P f [] = []"
| "update_first P f (x # xs) = (if P x then f x # xs else x # update_first P f xs)"

definition Genre_findById :: "oid \<Rightarrow> store \<Rightarrow> genre option" where
  "Genre_findById i st = find (\<lambda>g. genre_id g = i) (genres st)"

definition Book_find_genre :: "oid \<Rightarrow> store \<Rightarrow> book list" where
  \<comment> \<open>\<^verbatim>\<open>Book.find({ genre: id })\<close>; the projection of fields is left out.\<close>
  "Book_find_genre i st = filter (\<lambda>b. i \<in> set (book_genre b)) (books st)"

definition Book_find_sorted :: "store \<Rightarrow> book list" where
  \<comment> \<open>\<^verbatim>\<open>Book.find({}, "title").sort({ title: 1 })\<close>.\<close>
  "Book_find_sorted st = sort_key title (books st)"

definition Book_findById :: "oid \<Rightarrow> store \<Rightarrow> book option" where
  "Book_findById i st = find (\<lambda>b. book_id b = i) (books st)"

definition BookInstance_findById :: "oid \<Rightarrow> store \<Rightarrow> bookinstance option" where
  "BookInstance_findById i st = find (\<lambda>x. instance_id x = i) (instances st)"

text \<open>
  The collation lookup (\<^verbatim>\<open>locale "en"\<close>, \<^verbatim>\<open>strength: 2\<close>) is the document store's
  own. Which names it takes for equal is a parameter of the model, the relation
  \<open>coll\<close>: the first stored genre whose name the collation equates with the name asked
  for is the one found.
\<close>

type_synonym collation = "string \<Rightarrow> string \<Rightarrow> bool"

definition Genre_findOne_name :: "collation \<Rightarrow> string \<Rightarrow> store \<Rightarrow> genre option" where
  \<comment> \<open>\<^verbatim>\<open>Genre.findOne({ name: n }).collation({ locale: "en", strength: 2 })\<close>.\<close>
  "Genre_findOne_name coll n st = find (\<lambda>g. coll (genre_name g) n) (genres st)"

text \<open>
  Modelled from the spec: the \<^verbatim>\<open>url\<close> virtuals live in the model files, which are not
  among the sources. The spec gives the genre detail URL as \<^verbatim>\<open>/catalog/genre/<id>\<close>;
  the URL of a book copy is taken to follow the same scheme.
\<close>

definition genre_url :: "genre \<Rightarrow> string" where
  "genre_url g = ''/catalog/genre/'' @ hex (genre_id g)"

definition bookinstance_url :: "bookinstance \<Rightarrow> string" where
  "bookinstance_url x = ''/catalog/bookinstance/'' @ hex (instance_id x)"

section \<open>Responses, errors and the handler wrapper\<close>

datatype error =
    StatusError string nat  \<comment> \<open>\<^verbatim>\<open>new Error(message)\<close> with \<^verbatim>\<open>err.status\<close> set\<close>
  | TypeError string        \<comment> \<open>a property read on \<^verbatim>\<open>null\<close> or \<^verbatim>\<open>undefined\<close>\<close>
  | ValidationFailed string \<comment> \<open>the store refuses a document\<close>
  | CastError string        \<comment> \<open>a query on id text that is no object id\<close>

datatype db_write =
    Genre_save genre
  | Genre_findByIdAndDelete oid
  | Genre_findByIdAndUpdate oid genre
  | BookInstance_save_doc bookinstance
  | BookInstance_findByIdAndDelete oid
  | BookInstance_findByIdAndUpdate oid bookinstance

datatype local =
    LStr string
  | LGenre "genre option"
  | LBooks "book list"
  | LErrors "verror list"
  | LInstance "bookinstance option"
  | LPopulated bookinstance "book option"
  | LId oid

text \<open>
  A handler's trace lists, in program order, the calls it makes on the response
  (\<^verbatim>\<open>res.render\<close>, \<^verbatim>\<open>res.redirect\<close>), on the error channel (\<^verbatim>\<open>next(err)\<close>) and the
  write calls it issues on the store; a write that finds nothing to change, or that the
  store refuses, is listed all the same. What the framework does with a second response
  to one request is outside the model: the trace records that the call was made.
\<close>

datatype effect =
    Render string "(string \<times> local) list"
  | Redirect string
  | Next error
  | Db db_write

datatype outcome = Returned | Threw error

type_synonym run = "outcome \<times> store \<times> effect list"

record result =
  final :: store
  trace :: "effect list"

definition asyncHandler :: "run \<Rightarrow> result" where
  \<comment> \<open>\<^verbatim>\<open>Promise.resolve(fn(req, res, next)).catch(next)\<close>: an exception that escapes
      the handler is passed to \<^verbatim>\<open>next\<close>.\<close>
  "asyncHandler r =
     (case r of
        (Returned, st, tr) \<Rightarrow> \<lparr>final = st, trace = tr\<rparr>
      | (Threw e, st, tr) \<Rightarrow> \<lparr>final = st, trace = tr @ [Next e]\<rparr>)"

definition is_render :: "effect \<Rightarrow> bool" where
  "is_render e = (case e of Render v ls \<Rightarrow> True | _ \<Rightarrow> False)"

definition is_write :: "effect \<Rightarrow> bool" where
  "is_write e = (case e of Db w \<Rightarrow> True | _ \<Rightarrow> False)"

section \<open>The genre controller\<close>

definition genre_detail :: "store \<Rightarrow> string \<Rightarrow> result" where
  \<comment> \<open>\<open>t\<close> is \<^verbatim>\<open>req.params.id\<close>; both queries fail on text that is no object id.\<close>
  "genre_detail st t = asyncHandler
     (case cast_oid t of
        None \<Rightarrow> (Threw (CastError t), st, [])
      | Some i \<Rightarrow>
          (let genre = Genre_findById i st;
               booksInGenre = Book_find_genre i st
           in case genre of
                None \<Rightarrow> (Returned, st, [Next (StatusError ''Genre not found'' 404)])
              | Some g \<Rightarrow>
                  (Returned, st,
                   [Render ''genre_detail''
                      [(''title'', LStr ''Genre Detail''),
                       (''genre'', LGenre genre),
                       (''genre_books'', LBooks booksInGenre)]])))"

definition genre_create_post ::
  "collation \<Rightarrow> oid \<Rightarrow> store \<Rightarrow> string option \<Rightarrow> result" where
  \<comment> \<open>\<open>coll\<close> is the store's collation; \<open>new_id\<close> is the id the mapper gives the
      document built by \<^verbatim>\<open>new Genre\<close>; \<open>body_name\<close> is \<^verbatim>\<open>req.body.name\<close> as
      submitted.\<close>
  "genre_create_post coll new_id st body_name = asyncHandler
     (let (name, errors) =
            string_chain ''name'' ''Genre name must contain at least 3 characters'' 3 body_name;
          genre = \<lparr>genre_id = new_id, genre_name = name\<rparr>
      in if errors \<noteq> [] then
           (Returned, st,
            [Render ''genre_form''
               [(''title'', LStr ''Create Genre''),
                (''genre'', LGenre (Some genre)),
                (''errors'', LErrors errors)]])
         else
           (case Genre_findOne_name coll name st of
              Some genreExists \<Rightarrow> (Returned, st, [Redirect (genre_url genreExists)])
            | None \<Rightarrow>
                (Returned, st\<lparr>genres := genres st @ [genre]\<rparr>,
                 [Db (Genre_save genre), Redirect (genre_url genre)])))"

definition genre_delete_get :: "store \<Rightarrow> string \<Rightarrow> result" where
  \<comment> \<open>\<open>t\<close> is \<^verbatim>\<open>req.params.id\<close>. The redirect for a missing genre is not followed
      by a \<^verbatim>\<open>return\<close>.\<close>
  "genre_delete_get st t = asyncHandler
     (case cast_oid t of
        None \<Rightarrow> (Threw (CastError t), st, [])
      | Some i \<Rightarrow>
          (let genre = Genre_findById i st;
               booksWithGenre = Book_find_genre i st
           in (Returned, st,
               (if genre = None then [Redirect ''/catalog/genres''] else []) @
               [Render ''genre_delete''
                  [(''title'', LStr ''Delete genre''),
                   (''genre'', LGenre genre),
                   (''booksWithGenre'', LBooks booksWithGenre)]])))"

definition genre_delete_post :: "store \<Rightarrow> oid \<Rightarrow> oid \<Rightarrow> result" where
  \<comment> \<open>\<open>i\<close> is \<^verbatim>\<open>req.params.id\<close>, \<open>genreid\<close> is \<^verbatim>\<open>req.body.genreid\<close>.\<close>
  "genre_delete_post st i genreid = asyncHandler
     (let genre = Genre_findById i st;
          booksWithGenre = Book_find_genre i st
      in if length booksWithGenre > 0 then
           (Returned, st,
            [Render ''genre_delete''
               [(''title'', LStr ''Delete genre''),
                (''genre'', LGenre genre),
                (''booksWithGenre'', LBooks booksWithGenre)]])
         else
           (Returned, st\<lparr>genres := delete_first (\<lambda>g. genre_id g = genreid) (genres st)\<rparr>,
            [Db (Genre_findByIdAndDelete genreid), Redirect ''/catalog/genres'']))"

definition genre_update_post :: "store \<Rightarrow> oid \<Rightarrow> string option \<Rightarrow> result" where
  \<comment> \<open>\<^verbatim>\<open>findByIdAndUpdate\<close> answers with the stored document, or \<^verbatim>\<open>null\<close> when there
      is none, and then \<^verbatim>\<open>updatedGenre.url\<close> has nothing to read.\<close>
  "genre_update_post st i body_name = asyncHandler
     (let (name, errors) =
            string_chain ''name'' ''Genre name must contain at least 3 characters'' 3 body_name;
          genre = \<lparr>genre_id = i, genre_name = name\<rparr>
      in if errors \<noteq> [] then
           (Returned, st,
            [Render ''genre_form''
               [(''title'', LStr ''Update Genre''),
                (''genre'', LGenre (Some genre)),
                (''errors'', LErrors errors)]])
         else
           (case Genre_findById i st of
              None \<Rightarrow> (Threw (TypeError ''url''), st, [Db (Genre_findByIdAndUpdate i genre)])
            | Some updatedGenre \<Rightarrow>
                (Returned,
                 st\<lparr>genres := update_first (\<lambda>g. genre_id g = i) (\<lambda>g. genre) (genres st)\<rparr>,
                 [Db (Genre_findByIdAndUpdate i genre), Redirect (genre_url updatedGenre)])))"

section \<open>The book-instance controller\<close>

text \<open>
  The two library functions that read dates, \<^verbatim>\<open>isISO8601\<close> of the validator and the
  date parser behind \<^verbatim>\<open>toDate\<close>, are parameters of the model; a date is the number of
  milliseconds it holds.
\<close>

record datelib =
  isISO8601 :: "string \<Rightarrow> bool"
  toDate :: "string \<Rightarrow> int option"

record bookinstance_body =
  body_book :: "string option"
  body_imprint :: "string option"
  body_status :: "string option"
  body_due_back :: "string option"

definition falsy :: "string option \<Rightarrow> bool" where
  \<comment> \<open>The values \<^verbatim>\<open>.optional({ values: "falsy" })\<close> lets through unchecked: a missing
      field and the empty string.\<close>
  "falsy v = (v = None \<or> v = Some [])"

definition due_back_chain ::
  "datelib \<Rightarrow> string option \<Rightarrow> (string option + int option) \<times> verror list" where
  \<comment> \<open>\<^verbatim>\<open>body("due_back", "Invalid date").optional({ values: "falsy" }).isISO8601().toDate()\<close>.
      \<open>Inl\<close>: the chain was skipped and the field is as submitted; \<open>Inr\<close>: what
      \<^verbatim>\<open>toDate\<close> left, \<^verbatim>\<open>null\<close> for text that is no date.\<close>
  "due_back_chain lib v =
     (if falsy v then (Inl v, [])
      else
        (let s = to_string v
         in (Inr (toDate lib s),
             if isISO8601 lib s then []
             else [\<lparr>path = ''due_back'', msg = ''Invalid date'', value = s\<rparr>])))"

record sanitized_body =
  req_book :: string
  req_imprint :: string
  req_status :: string
  req_due_back :: "string option + int option"

definition bookinstance_chains :: "datelib \<Rightarrow> bookinstance_body \<Rightarrow> sanitized_body \<times> verror list" where
  \<comment> \<open>The four validation chains that head both the create and the update handler, run
      in order; the result is \<^verbatim>\<open>req.body\<close> afterwards and \<^verbatim>\<open>validationResult(req)\<close>.\<close>
  "bookinstance_chains lib b =
     (let (book_v, book_errors) =
            string_chain ''book'' ''Book must be specified'' 1 (body_book b);
          (imprint_v, imprint_errors) =
            string_chain ''imprint'' ''Imprint must be specified'' 1 (body_imprint b);
          status_v = escape (to_string (body_status b));
          (due_v, due_errors) = due_back_chain lib (body_due_back b)
      in (\<lparr>req_book = book_v, req_imprint = imprint_v, req_status = status_v,
           req_due_back = due_v\<rparr>,
          book_errors @ imprint_errors @ due_errors))"

text \<open>
  Modelled from the spec: \<^verbatim>\<open>models/bookinstance.js\<close> is not among the sources. The
  spec's data model makes \<^verbatim>\<open>book\<close> a reference to a Book, so the document built by
  \<^verbatim>\<open>new BookInstance\<close> holds an object id there: the mapper casts the submitted text
  and leaves the path unset for text that is no object id. The store refuses a document
  without its book.
\<close>

definition cast_date :: "datelib \<Rightarrow> string option + int option \<Rightarrow> date_field" where
  "cast_date lib v =
     (case v of
        Inl None \<Rightarrow> Unset
      | Inl (Some s) \<Rightarrow>
          (if s = [] then Null else (case toDate lib s of None \<Rightarrow> Unset | Some d \<Rightarrow> Date d))
      | Inr None \<Rightarrow> Null
      | Inr (Some d) \<Rightarrow> Date d)"

definition new_BookInstance :: "datelib \<Rightarrow> oid \<Rightarrow> sanitized_body \<Rightarrow> bookinstance" where
  "new_BookInstance lib i b =
     \<lparr>instance_id = i,
      book_ref = cast_oid (req_book b),
      imprint = req_imprint b,
      status = req_status b,
      due_back = cast_date lib (req_due_back b)\<rparr>"

definition BookInstance_save :: "bookinstance \<Rightarrow> store \<Rightarrow> error + store" where
  "BookInstance_save x st =
     (case book_ref x of
        None \<Rightarrow> Inl (ValidationFailed ''book'')
      | Some b \<Rightarrow> Inr (st\<lparr>instances := instances st @ [x]\<rparr>))"

definition apply_update :: "bookinstance \<Rightarrow> bookinstance \<Rightarrow> bookinstance" where
  \<comment> \<open>The update sets the paths the new document has; an unset path keeps the stored value.\<close>
  "apply_update new old =
     \<lparr>instance_id = instance_id old,
      book_ref = (case book_ref new of None \<Rightarrow> book_ref old | Some b \<Rightarrow> Some b),
      imprint = imprint new,
      status = status new,
      due_back = (case due_back new of Unset \<Rightarrow> due_back old | d \<Rightarrow> d)\<rparr>"

definition populate_book :: "store \<Rightarrow> bookinstance \<Rightarrow> book option" where
  \<comment> \<open>\<^verbatim>\<open>.populate("book")\<close>: the referenced book, or \<^verbatim>\<open>null\<close>.\<close>
  "populate_book st x = (case book_ref x of None \<Rightarrow> None | Some b \<Rightarrow> Book_findById b st)"

definition bookinstance_detail :: "store \<Rightarrow> string \<Rightarrow> result" where
  \<comment> \<open>\<open>t\<close> is \<^verbatim>\<open>req.params.id\<close>; the query fails on text that is no object id.\<close>
  "bookinstance_detail st t = asyncHandler
     (case cast_oid t of
        None \<Rightarrow> (Threw (CastError t), st, [])
      | Some i \<Rightarrow>
          (case BookInstance_findById i st of
             None \<Rightarrow> (Returned, st, [Next (StatusError ''Book copy not found'' 404)])
           | Some bookInstance \<Rightarrow>
               (Returned, st,
                [Render ''bookinstance_detail''
                   [(''title'', LStr ''Book:''),
                    (''bookinstance'',
                     LPopulated bookInstance (populate_book st bookInstance))]])))"

definition bookinstance_create_post ::
  "datelib \<Rightarrow> oid \<Rightarrow> store \<Rightarrow> bookinstance_body \<Rightarrow> result" where
  \<comment> \<open>In the error branch the data for the view reads \<^verbatim>\<open>bookInstance.book._id\<close> before
      \<^verbatim>\<open>res.render\<close> is called.\<close>
  "bookinstance_create_post lib new_id st b = asyncHandler
     (let (body, errors) = bookinstance_chains lib b;
          bookInstance = new_BookInstance lib new_id body
      in if errors \<noteq> [] then
           (let allBooks = Book_find_sorted st
            in case book_ref bookInstance of
                 None \<Rightarrow> (Threw (TypeError ''_id''), st, [])
               | Some selected \<Rightarrow>
                   (Returned, st,
                    [Render ''bookinstance_form''
                       [(''title'', LStr ''Create BookInstance''),
                        (''book_list'', LBooks allBooks),
                        (''selected_book'', LId selected),
                        (''errors'', LErrors errors),
                        (''bookinstance'', LInstance (Some bookInstance))]]))
         else
           (case BookInstance_save bookInstance st of
              Inl e \<Rightarrow> (Threw e, st, [Db (BookInstance_save_doc bookInstance)])
            | Inr st' \<Rightarrow>
                (Returned, st',
                 [Db (BookInstance_save_doc bookInstance),
                  Redirect (bookinstance_url bookInstance)])))"

definition bookinstance_delete_get :: "store \<Rightarrow> string \<Rightarrow> result" where
  \<comment> \<open>\<open>t\<close> is \<^verbatim>\<open>req.params.id\<close>. The handler returns with the error it forwards.\<close>
  "bookinstance_delete_get st t = asyncHandler
     (case cast_oid t of
        None \<Rightarrow> (Threw (CastError t), st, [])
      | Some i \<Rightarrow>
          (case BookInstance_findById i st of
             None \<Rightarrow> (Returned, st, [Next (StatusError ''Instance not found'' 404)])
           | Some instance \<Rightarrow>
               (Returned, st,
                [Render ''bookinstance_delete''
                   [(''title'', LStr ''Delete book instance''),
                    (''instance'', LPopulated instance (populate_book st instance))]])))"

definition bookinstance_delete_post :: "store \<Rightarrow> oid \<Rightarrow> result" where
  \<comment> \<open>The redirect for a missing instance is not followed by a \<^verbatim>\<open>return\<close>.\<close>
  "bookinstance_delete_post st i = asyncHandler
     (let instance = BookInstance_findById i st
      in (Returned,
          st\<lparr>instances := delete_first (\<lambda>x. instance_id x = i) (instances st)\<rparr>,
          (if instance = None then [Redirect ''/catalog/bookinstances''] else []) @
          [Db (BookInstance_findByIdAndDelete i), Redirect ''/catalog/bookinstances'']))"

definition bookinstance_update_get :: "store \<Rightarrow> string \<Rightarrow> result" where
  \<comment> \<open>\<open>t\<close> is \<^verbatim>\<open>req.params.id\<close>; the first query fails on text that is no object id.
      \<^verbatim>\<open>next(err)\<close> is not followed by a \<^verbatim>\<open>return\<close>: the render statement is reached,
      and the data for the view then reads \<^verbatim>\<open>instance.book._id\<close>.\<close>
  "bookinstance_update_get st t = asyncHandler
     (case cast_oid t of
        None \<Rightarrow> (Threw (CastError t), st, [])
      | Some i \<Rightarrow>
          (let instance = BookInstance_findById i st;
               allBooks = Book_find_sorted st;
               signalled =
                 (if instance = None then [Next (StatusError ''Instance not found'' 404)]
                  else [])
           in case instance of
                None \<Rightarrow> (Threw (TypeError ''book''), st, signalled)
              | Some x \<Rightarrow>
                  (case book_ref x of
                     None \<Rightarrow> (Threw (TypeError ''_id''), st, signalled)
                   | Some selected \<Rightarrow>
                       (Returned, st,
                        signalled @
                        [Render ''bookinstance_form''
                           [(''title'', LStr ''Update book instance''),
                            (''bookinstance'', LInstance instance),
                            (''selected_book'', LId selected),
                            (''book_list'', LBooks allBooks)]]))))"

definition bookinstance_update_post ::
  "datelib \<Rightarrow> store \<Rightarrow> oid \<Rightarrow> bookinstance_body \<Rightarrow> result" where
  "bookinstance_update_post lib st i b = asyncHandler
     (let (body, errors) = bookinstance_chains lib b;
          bookInstance = new_BookInstance lib i body
      in if errors \<noteq> [] then
           (let allBooks = Book_find_sorted st
            in case book_ref bookInstance of
                 None \<Rightarrow> (Threw (TypeError ''_id''), st, [])
               | Some selected \<Rightarrow>
                   (Returned, st,
                    [Render ''bookinstance_form''
                       [(''title'', LStr ''Update BookInstance''),
                        (''book_list'', LBooks allBooks),
                        (''selected_book'', LId selected),
                        (''errors'', LErrors errors),
                        (''bookinstance'', LInstance (Some bookInstance))]]))
         else
           (case BookInstance_findById i st of
              None \<Rightarrow>
                (Threw (TypeError ''url''), st, [Db (BookInstance_findByIdAndUpdate i bookInstance)])
            | Some updatedInstance \<Rightarrow>
                (Returned,
                 st\<lparr>instances :=
                      update_first (\<lambda>x. instance_id x = i) (apply_update bookInstance)
                        (instances st)\<rparr>,
                 [Db (BookInstance_findByIdAndUpdate i bookInstance),
                  Redirect (bookinstance_url updatedInstance)])))"

section \<open>Example data\<close>

definition fantasy :: genre where
  "fantasy = \<lparr>genre_id = ObjectId ''650000000000000000000001'', genre_name = ''Fantasy''\<rparr>"

definition scifi :: genre where
  "scifi = \<lparr>genre_id = ObjectId ''650000000000000000000002'', genre_name = ''Sci-Fi''\<rparr>"

definition dune :: book where
  "dune = \<lparr>book_id = ObjectId ''65000000000000000000000b'', title = ''Dune'',
           book_genre = [ObjectId ''650000000000000000000002'']\<rparr>"

definition dune_copy :: bookinstance where
  "dune_copy =
     \<lparr>instance_id = ObjectId ''65000000000000000000000c'',
      book_ref = Some (ObjectId ''65000000000000000000000b''),
      imprint = ''Ace, 1990'', status = ''Available'', due_back = Unset\<rparr>"

definition library :: store where
  "library = \<lparr>genres = [fantasy, scifi], books = [dune], instances = [dune_copy]\<rparr>"

definition amp_genre :: genre where
  \<comment> \<open>The genre the create handler stores for the submitted name \<^verbatim>\<open>R&B\<close>.\<close>
  "amp_genre = \<lparr>genre_id = ObjectId ''650000000000000000000003'', genre_name = ''R&amp;B''\<rparr>"

definition short_genre :: genre where
  "short_genre = \<lparr>genre_id = ObjectId ''650000000000000000000004'', genre_name = ''SF''\<rparr>"

definition odd_shelf :: store where
  "odd_shelf = \<lparr>genres = [amp_genre, short_genre], books = [], instances = []\<rparr>"

definition unknown_id :: oid where
  "unknown_id = ObjectId ''65000000000000000000ffff''"

definition ascii_collation :: collation where
  \<comment> \<open>A collation for running the model on examples: equality after folding the case
      of ASCII letters. On the ASCII names of the examples it equates what the store's
      collation equates; the store's collation equates further pairs of other text.\<close>
  "ascii_collation a b = (map lower a = map lower b)"

definition blank_book :: bookinstance_body where
  "blank_book =
     \<lparr>body_book = Some ''  '', body_imprint = Some ''Ace, 1990'',
      body_status = Some ''Available'', body_due_back = None\<rparr>"

definition no_date :: bookinstance_body where
  "no_date =
     \<lparr>body_book = Some ''65000000000000000000000b'', body_imprint = Some ''Ace, 1990'',
      body_status = Some ''Available'', body_due_back = Some []\<rparr>"

definition one_date :: datelib where
  \<comment> \<open>A date library that knows a single date, for running the model on examples.\<close>
  "one_date =
     \<lparr>isISO8601 = (\<lambda>s. s = ''2024-05-01''),
      toDate = (\<lambda>s. if s = ''2024-05-01'' then Some 1714521600000 else None)\<rparr>"

lemmas example_defs =
  fantasy_def scifi_def dune_def dune_copy_def library_def unknown_id_def
  amp_genre_def short_genre_def odd_shelf_def

lemmas string_defs =
  to_string_def trim_def ltrim_def rtrim_def is_space_def escape_def escape_char_def

lemmas lookup_defs =
  Genre_findById_def BookInstance_findById_def Book_findById_def Book_find_genre_def
  Genre_findOne_name_def

lemma cast_unknown: "cast_oid ''65000000000000000000ffff'' = Some unknown_id"
  by (simp add: cast_oid_def is_hex_digit_def lower_def unknown_id_def)

lemma cast_malformed: "cast_oid ''not-an-id'' = None"
  by (simp add: cast_oid_def)

section \<open>Facts about the store operations\<close>

lemma delete_first_absent: "find P xs = None \<Longrightarrow> delete_first P xs = xs"
  by (induction xs) (auto split: if_splits)

lemma find_hit:
  "\<exists>x\<in>set xs. P x \<Longrightarrow> \<exists>y. find P xs = Some y \<and> y \<in> set xs \<and> P y"
  by (induction xs) auto

lemma find_delete_first_other:
  "k \<noteq> i \<Longrightarrow>
   find (\<lambda>x. f x = i) (delete_first (\<lambda>x. f x = k) xs) = find (\<lambda>x. f x = i) xs"
  by (induction xs) auto

lemma find_delete_first_same:
  "distinct (map f xs) \<Longrightarrow> find (\<lambda>x. f x = k) (delete_first (\<lambda>x. f x = k) xs) = None"
proof (induction xs)
  case Nil
  then show ?case by simp
next
  case (Cons x xs)
  show ?case
  proof (cases "f x = k")
    case True
    with Cons.prems have "k \<notin> f ` set xs" by auto
    then have "find (\<lambda>x. f x = k) xs = None"
      by (auto simp: find_None_iff)
    with True show ?thesis by simp
  next
    case False
    with Cons show ?thesis by simp
  qed
qed

lemma store_instances_same [simp]: "st\<lparr>instances := instances st\<rparr> = st"
  by simp

lemma store_genres_same [simp]: "st\<lparr>genres := genres st\<rparr> = st"
  by simp

text \<open>Trimming leaves nothing exactly when the text is white space throughout.\<close>

lemma trim_blank_iff: "trim s = [] \<longleftrightarrow> list_all is_space s"
proof -
  have "trim s = [] \<longleftrightarrow> (\<forall>c\<in>set (dropWhile is_space s). is_space c)"
    by (simp add: trim_def rtrim_def ltrim_def dropWhile_eq_Nil_conv)
  also have "\<dots> \<longleftrightarrow> dropWhile is_space s = []"
  proof
    assume a: "\<forall>c\<in>set (dropWhile is_space s). is_space c"
    show "dropWhile is_space s = []"
    proof (rule ccontr)
      assume n: "dropWhile is_space s \<noteq> []"
      then have "\<not> is_space (hd (dropWhile is_space s))"
        by (rule hd_dropWhile)
      moreover from n have "hd (dropWhile is_space s) \<in> set (dropWhile is_space s)"
        by simp
      ultimately show False using a by blast
    qed
  next
    assume e: "dropWhile is_space s = []"
    show "\<forall>c\<in>set (dropWhile is_space s). is_space c"
      unfolding e by simp
  qed
  also have "\<dots> \<longleftrightarrow> list_all is_space s"
    by (simp add: dropWhile_eq_Nil_conv list_all_iff)
  finally show ?thesis .
qed

lemma string_chain_short:
  "length (trim (to_string v)) < n \<Longrightarrow>
   string_chain f m n v =
     (escape (trim (to_string v)), [\<lparr>path = f, msg = m, value = trim (to_string v)\<rparr>])"
  by (simp add: string_chain_def isLength_def Let_def)

lemma string_chain_long:
  "n \<le> length (trim (to_string v)) \<Longrightarrow>
   string_chain f m n v = (escape (trim (to_string v)), [])"
  by (simp add: string_chain_def isLength_def Let_def)

section \<open>Detail pages of records that do not exist\<close>

text \<open>
  C6, as the code has it. A detail request, for a genre or for a book copy, whose id is
  an object id that matches no stored record forwards an error with status 404 to the
  error channel; that call is the whole trace, so no detail page is rendered, and the
  store is as it was. When the id text is no object id the query fails first: what
  reaches the error channel is the cast error, which carries no status 404, and no page
  is rendered either.
\<close>

theorem detail_not_found:
  "(cast_oid t = Some i \<and> Genre_findById i st = None \<longrightarrow>
      genre_detail st t =
        \<lparr>final = st, trace = [Next (StatusError ''Genre not found'' 404)]\<rparr>) \<and>
   (cast_oid t = Some i \<and> BookInstance_findById i st = None \<longrightarrow>
      bookinstance_detail st t =
        \<lparr>final = st, trace = [Next (StatusError ''Book copy not found'' 404)]\<rparr>) \<and>
   (cast_oid t = None \<longrightarrow>
      genre_detail st t = \<lparr>final = st, trace = [Next (CastError t)]\<rparr> \<and>
      bookinstance_detail st t = \<lparr>final = st, trace = [Next (CastError t)]\<rparr>)"
  by (simp add: genre_detail_def bookinstance_detail_def asyncHandler_def)

theorem detail_not_found_witness:
  "cast_oid ''65000000000000000000ffff'' = Some unknown_id \<and>
   Genre_findById unknown_id library = None \<and>
   genre_detail library ''65000000000000000000ffff'' =
     \<lparr>final = library, trace = [Next (StatusError ''Genre not found'' 404)]\<rparr> \<and>
   BookInstance_findById unknown_id library = None \<and>
   bookinstance_detail library ''65000000000000000000ffff'' =
     \<lparr>final = library, trace = [Next (StatusError ''Book copy not found'' 404)]\<rparr> \<and>
   cast_oid ''not-an-id'' = None \<and>
   genre_detail library ''not-an-id'' =
     \<lparr>final = library, trace = [Next (CastError ''not-an-id'')]\<rparr> \<and>
   bookinstance_detail library ''not-an-id'' =
     \<lparr>final = library, trace = [Next (CastError ''not-an-id'')]\<rparr>"
proof -
  have g: "Genre_findById unknown_id library = None"
    by (simp add: lookup_defs example_defs)
  have b: "BookInstance_findById unknown_id library = None"
    by (simp add: lookup_defs example_defs)
  from g b cast_unknown cast_malformed
    detail_not_found [of "''65000000000000000000ffff''" unknown_id library]
    detail_not_found [of "''not-an-id''" unknown_id library]
  show ?thesis
    by simp
qed

text \<open>
  The claim as written fails on id text that is no object id: \<open>not-an-id\<close> is the id of
  no stored genre and of no stored copy, and neither handler forwards an error with
  status 404 for it.
\<close>

theorem detail_not_found_counterexample:
  "''not-an-id'' \<notin> set (map (\<lambda>g. hex (genre_id g)) (genres library)) \<and>
   ''not-an-id'' \<notin> set (map (\<lambda>x. hex (instance_id x)) (instances library)) \<and>
   genre_detail library ''not-an-id'' =
     \<lparr>final = library, trace = [Next (CastError ''not-an-id'')]\<rparr> \<and>
   bookinstance_detail library ''not-an-id'' =
     \<lparr>final = library, trace = [Next (CastError ''not-an-id'')]\<rparr>"
  by (simp add: genre_detail_def bookinstance_detail_def asyncHandler_def cast_malformed
      example_defs)

section \<open>Genre names shorter than three characters\<close>

text \<open>
  C3. A genre create or update request whose name, after trimming, is shorter than three
  characters is answered by rendering the form again with the validation error, and the
  store is left as it was: no genre is inserted or updated.
\<close>

theorem genre_short_name_rejected:
  "length (trim (to_string body_name)) < 3 \<Longrightarrow>
   genre_create_post coll new_id st body_name =
     \<lparr>final = st,
      trace =
        [Render ''genre_form''
           [(''title'', LStr ''Create Genre''),
            (''genre'',
             LGenre (Some \<lparr>genre_id = new_id,
                           genre_name = escape (trim (to_string body_name))\<rparr>)),
            (''errors'',
             LErrors [\<lparr>path = ''name'',
                       msg = ''Genre name must contain at least 3 characters'',
                       value = trim (to_string body_name)\<rparr>])]]\<rparr> \<and>
   genre_update_post st i body_name =
     \<lparr>final = st,
      trace =
        [Render ''genre_form''
           [(''title'', LStr ''Update Genre''),
            (''genre'',
             LGenre (Some \<lparr>genre_id = i,
                           genre_name = escape (trim (to_string body_name))\<rparr>)),
            (''errors'',
             LErrors [\<lparr>path = ''name'',
                       msg = ''Genre name must contain at least 3 characters'',
                       value = trim (to_string body_name)\<rparr>])]]\<rparr>"
  by (simp add: genre_create_post_def genre_update_post_def asyncHandler_def
      string_chain_short)

theorem genre_short_name_rejected_witness:
  "length (trim (to_string (Some '' ab ''))) < 3 \<and>
   genre_create_post ascii_collation unknown_id library (Some '' ab '') =
     \<lparr>final = library,
      trace =
        [Render ''genre_form''
           [(''title'', LStr ''Create Genre''),
            (''genre'', LGenre (Some \<lparr>genre_id = unknown_id, genre_name = ''ab''\<rparr>)),
            (''errors'',
             LErrors [\<lparr>path = ''name'',
                       msg = ''Genre name must contain at least 3 characters'',
                       value = ''ab''\<rparr>])]]\<rparr> \<and>
   genre_update_post library (genre_id fantasy) (Some '' ab '') =
     \<lparr>final = library,
      trace =
        [Render ''genre_form''
           [(''title'', LStr ''Update Genre''),
            (''genre'', LGenre (Some \<lparr>genre_id = genre_id fantasy, genre_name = ''ab''\<rparr>)),
            (''errors'',
             LErrors [\<lparr>path = ''name'',
                       msg = ''Genre name must contain at least 3 characters'',
                       value = ''ab''\<rparr>])]]\<rparr>"
proof -
  have t: "trim (to_string (Some '' ab '')) = ''ab''"
    by (simp add: string_defs)
  have e: "escape ''ab'' = ''ab''"
    by (simp add: string_defs)
  have h: "length (trim (to_string (Some '' ab ''))) < 3"
    by (simp add: t)
  from genre_short_name_rejected
         [OF h, of ascii_collation unknown_id library "genre_id fantasy"] h
  show ?thesis
    by (simp add: t e)
qed

section \<open>Requests for a book copy that does not exist\<close>

text \<open>
  C9, as the code has it. A book-instance update GET request whose id is an object id
  that matches no stored instance signals the NotFound error and does not halt:
  execution goes on to read the book of the absent instance, which faults on the null
  record. The fault escapes the handler and reaches the error channel as a second call;
  no form is rendered. When the id text is no object id the first query fails: the cast
  error is the only call, no NotFound error is signalled and nothing is read from an
  instance.
\<close>

theorem bookinstance_update_get_missing_faults:
  "(cast_oid t = Some i \<and> BookInstance_findById i st = None \<longrightarrow>
      bookinstance_update_get st t =
        \<lparr>final = st,
         trace =
           [Next (StatusError ''Instance not found'' 404), Next (TypeError ''book'')]\<rparr>) \<and>
   (cast_oid t = None \<longrightarrow>
      bookinstance_update_get st t = \<lparr>final = st, trace = [Next (CastError t)]\<rparr>)"
  by (simp add: bookinstance_update_get_def asyncHandler_def)

theorem bookinstance_update_get_missing_faults_witness:
  "cast_oid ''65000000000000000000ffff'' = Some unknown_id \<and>
   BookInstance_findById unknown_id library = None \<and>
   bookinstance_update_get library ''65000000000000000000ffff'' =
     \<lparr>final = library,
      trace = [Next (StatusError ''Instance not found'' 404), Next (TypeError ''book'')]\<rparr> \<and>
   cast_oid ''not-an-id'' = None \<and>
   bookinstance_update_get library ''not-an-id'' =
     \<lparr>final = library, trace = [Next (CastError ''not-an-id'')]\<rparr>"
proof -
  have h: "BookInstance_findById unknown_id library = None"
    by (simp add: lookup_defs example_defs)
  from h cast_unknown cast_malformed
    bookinstance_update_get_missing_faults
      [of "''65000000000000000000ffff''" unknown_id library]
    bookinstance_update_get_missing_faults [of "''not-an-id''" unknown_id library]
  show ?thesis
    by simp
qed

text \<open>
  The claim as written fails on id text that is no object id: \<open>not-an-id\<close> is the id of
  no stored copy, and the handler stops at the failed query, before any NotFound error
  and before any read of the instance.
\<close>

theorem bookinstance_update_get_missing_faults_counterexample:
  "''not-an-id'' \<notin> set (map (\<lambda>x. hex (instance_id x)) (instances library)) \<and>
   bookinstance_update_get library ''not-an-id'' =
     \<lparr>final = library, trace = [Next (CastError ''not-an-id'')]\<rparr>"
  by (simp add: bookinstance_update_get_def asyncHandler_def cast_malformed example_defs)

text \<open>
  C7. A book-instance delete POST request for an absent instance redirects to the list
  and, there being no \<^verbatim>\<open>return\<close> and no else-branch, goes on to issue the delete and a
  second redirect: the redirect-when-absent and the delete both happen in one run.
\<close>

theorem bookinstance_delete_post_missing_runs_on:
  "BookInstance_findById i st = None \<Longrightarrow>
   bookinstance_delete_post st i =
     \<lparr>final = st,
      trace =
        [Redirect ''/catalog/bookinstances'',
         Db (BookInstance_findByIdAndDelete i),
         Redirect ''/catalog/bookinstances'']\<rparr>"
  by (simp add: bookinstance_delete_post_def asyncHandler_def BookInstance_findById_def
      delete_first_absent)

theorem bookinstance_delete_post_missing_runs_on_witness:
  "BookInstance_findById unknown_id library = None \<and>
   bookinstance_delete_post library unknown_id =
     \<lparr>final = library,
      trace =
        [Redirect ''/catalog/bookinstances'',
         Db (BookInstance_findByIdAndDelete unknown_id),
         Redirect ''/catalog/bookinstances'']\<rparr>"
proof -
  have h: "BookInstance_findById unknown_id library = None"
    by (simp add: lookup_defs example_defs)
  from bookinstance_delete_post_missing_runs_on [OF h] h show ?thesis
    by simp
qed

section \<open>Creating a genre that already exists\<close>

text \<open>
  C1, as the code has it. The lookup for an existing genre is made with the name as the
  handler sanitised it, trimmed and HTML-escaped, and only once the trimmed name has
  passed the length check. For a create request whose trimmed name has at least three
  characters and whose trimmed, escaped name the store's collation equates with the
  stored name of an existing genre, the handler redirects to the detail URL of such a
  genre and leaves the store as it was. A save is issued only when the trimmed name has
  at least three characters and the collation equates no stored genre name with the
  trimmed, escaped name. This holds whatever the collation is.
\<close>

theorem genre_create_post_existing:
  "(3 \<le> length (trim (to_string body_name)) \<and>
    (\<exists>g \<in> set (genres st).
        coll (genre_name g) (escape (trim (to_string body_name)))) \<longrightarrow>
    (\<exists>g \<in> set (genres st).
        coll (genre_name g) (escape (trim (to_string body_name))) \<and>
        genre_create_post coll new_id st body_name =
          \<lparr>final = st, trace = [Redirect (genre_url g)]\<rparr>)) \<and>
   (list_ex is_write (trace (genre_create_post coll new_id st body_name)) \<longrightarrow>
      3 \<le> length (trim (to_string body_name)) \<and>
      \<not> (\<exists>g \<in> set (genres st).
            coll (genre_name g) (escape (trim (to_string body_name)))))"
proof (intro conjI impI)
  let ?n = "escape (trim (to_string body_name))"
  assume a: "3 \<le> length (trim (to_string body_name)) \<and>
    (\<exists>g \<in> set (genres st). coll (genre_name g) ?n)"
  then have "\<exists>g\<in>set (genres st). coll (genre_name g) ?n"
    by simp
  from find_hit [OF this] obtain g where g: "Genre_findOne_name coll ?n st = Some g"
    and "g \<in> set (genres st)" "coll (genre_name g) ?n"
    by (auto simp: Genre_findOne_name_def)
  moreover from a g have "genre_create_post coll new_id st body_name =
          \<lparr>final = st, trace = [Redirect (genre_url g)]\<rparr>"
    by (simp add: genre_create_post_def asyncHandler_def string_chain_long)
  ultimately show "\<exists>g \<in> set (genres st).
        coll (genre_name g) ?n \<and>
        genre_create_post coll new_id st body_name =
          \<lparr>final = st, trace = [Redirect (genre_url g)]\<rparr>"
    by blast
next
  assume w: "list_ex is_write (trace (genre_create_post coll new_id st body_name))"
  show "3 \<le> length (trim (to_string body_name))"
  proof (rule ccontr)
    assume "\<not> 3 \<le> length (trim (to_string body_name))"
    then have "length (trim (to_string body_name)) < 3" by simp
    with w show False
      by (simp add: genre_create_post_def asyncHandler_def string_chain_short is_write_def)
  qed
next
  assume w: "list_ex is_write (trace (genre_create_post coll new_id st body_name))"
  show "\<not> (\<exists>g \<in> set (genres st).
            coll (genre_name g) (escape (trim (to_string body_name))))"
  proof
    assume "\<exists>g \<in> set (genres st).
            coll (genre_name g) (escape (trim (to_string body_name)))"
    from find_hit [OF this] obtain g
      where g: "Genre_findOne_name coll (escape (trim (to_string body_name))) st = Some g"
      by (auto simp: Genre_findOne_name_def)
    with w show False
      by (cases "3 \<le> length (trim (to_string body_name))")
         (simp_all add: genre_create_post_def asyncHandler_def string_chain_long
            string_chain_short is_write_def)
  qed
qed

text \<open>
  The scenario of the spec: with the genre \<open>Sci-Fi\<close> stored, submitting \<open>sci-fi\<close> with
  blanks around it redirects to the stored genre; submitting \<open>Horror\<close> saves, and no
  stored genre has that name.
\<close>

theorem genre_create_post_existing_witness:
  "3 \<le> length (trim (to_string (Some '' sci-fi  ''))) \<and>
   scifi \<in> set (genres library) \<and>
   ascii_collation (genre_name scifi) (escape (trim (to_string (Some '' sci-fi  '')))) \<and>
   (\<exists>g \<in> set (genres library).
      ascii_collation (genre_name g) (escape (trim (to_string (Some '' sci-fi  '')))) \<and>
      genre_create_post ascii_collation unknown_id library (Some '' sci-fi  '') =
        \<lparr>final = library, trace = [Redirect (genre_url g)]\<rparr>) \<and>
   list_ex is_write
     (trace (genre_create_post ascii_collation unknown_id library (Some ''Horror''))) \<and>
   \<not> (\<exists>g \<in> set (genres library).
         ascii_collation (genre_name g) (escape (trim (to_string (Some ''Horror'')))))"
proof -
  have t: "trim (to_string (Some '' sci-fi  '')) = ''sci-fi''"
    by (simp add: string_defs)
  have e: "escape ''sci-fi'' = ''sci-fi''"
    by (simp add: string_defs)
  have h1: "3 \<le> length (trim (to_string (Some '' sci-fi  '')))"
    by (simp add: t)
  have h2: "scifi \<in> set (genres library)"
    by (simp add: example_defs)
  have h3: "ascii_collation (genre_name scifi)
              (escape (trim (to_string (Some '' sci-fi  ''))))"
    by (simp add: t e scifi_def ascii_collation_def lower_def)
  have h4: "list_ex is_write
              (trace (genre_create_post ascii_collation unknown_id library (Some ''Horror'')))"
    by (simp add: genre_create_post_def asyncHandler_def string_chain_def isLength_def
        string_defs lookup_defs example_defs ascii_collation_def lower_def is_write_def
        Let_def)
  from h1 h2 h3 h4
    genre_create_post_existing [of "Some '' sci-fi  ''" library ascii_collation unknown_id]
    genre_create_post_existing [of "Some ''Horror''" library ascii_collation unknown_id]
  show ?thesis
    by blast
qed

text \<open>
  The claim as written fails twice. A trimmed name that equals a stored name up to case
  is still saved as a new genre when escaping changes it: \<open>r&amp;b\<close> against the stored
  \<open>R&amp;B\<close>, the genre the handler itself stores for the submitted name \<open>R&B\<close>. And
  against a store that holds a name of two characters, a matching name gets the form
  back, not a redirect. On these ASCII names the example collation equates what the
  store's collation equates.
\<close>

theorem genre_create_post_existing_counterexample:
  "amp_genre \<in> set (genres odd_shelf) \<and>
   ascii_collation (genre_name amp_genre) (trim (to_string (Some ''r&amp;b''))) \<and>
   genre_create_post ascii_collation unknown_id odd_shelf (Some ''r&amp;b'') =
     \<lparr>final =
        odd_shelf\<lparr>genres :=
          [amp_genre, short_genre, \<lparr>genre_id = unknown_id, genre_name = ''r&amp;amp;b''\<rparr>]\<rparr>,
      trace =
        [Db (Genre_save \<lparr>genre_id = unknown_id, genre_name = ''r&amp;amp;b''\<rparr>),
         Redirect ''/catalog/genre/65000000000000000000ffff'']\<rparr> \<and>
   short_genre \<in> set (genres odd_shelf) \<and>
   ascii_collation (genre_name short_genre) (trim (to_string (Some ''sf''))) \<and>
   genre_create_post ascii_collation unknown_id odd_shelf (Some ''sf'') =
     \<lparr>final = odd_shelf,
      trace =
        [Render ''genre_form''
           [(''title'', LStr ''Create Genre''),
            (''genre'', LGenre (Some \<lparr>genre_id = unknown_id, genre_name = ''sf''\<rparr>)),
            (''errors'',
             LErrors [\<lparr>path = ''name'',
                       msg = ''Genre name must contain at least 3 characters'',
                       value = ''sf''\<rparr>])]]\<rparr>"
  by (simp add: genre_create_post_def asyncHandler_def string_chain_def isLength_def
      string_defs lookup_defs example_defs ascii_collation_def lower_def genre_url_def
      Let_def)

section \<open>Deleting a genre\<close>

text \<open>
  What the delete handler does in each branch. With a book that references the genre
  of the URL it deletes nothing and renders the confirmation view with exactly the
  books that reference it; with none it deletes by the id of the form field.
\<close>

lemma genre_delete_post_branches:
  "(Book_find_genre i st \<noteq> [] \<longrightarrow>
      genre_delete_post st i genreid =
        \<lparr>final = st,
         trace =
           [Render ''genre_delete''
              [(''title'', LStr ''Delete genre''),
               (''genre'', LGenre (Genre_findById i st)),
               (''booksWithGenre'', LBooks (Book_find_genre i st))]]\<rparr> \<and>
      set (Book_find_genre i st) = {b \<in> set (books st). i \<in> set (book_genre b)}) \<and>
   (Book_find_genre i st = [] \<longrightarrow>
      genre_delete_post st i genreid =
        \<lparr>final = st\<lparr>genres := delete_first (\<lambda>g. genre_id g = genreid) (genres st)\<rparr>,
         trace = [Db (Genre_findByIdAndDelete genreid), Redirect ''/catalog/genres'']\<rparr>) \<and>
   (Book_find_genre i st = [] \<and> genreid = i \<and> distinct (map genre_id (genres st)) \<longrightarrow>
      Genre_findById i (final (genre_delete_post st i genreid)) = None)"
  by (auto simp: genre_delete_post_def asyncHandler_def Let_def Genre_findById_def
      find_delete_first_same Book_find_genre_def)

text \<open>
  C2. The guard and the delete do not speak of the same genre. The handler checks the
  books of the genre of the URL and deletes the genre the form names. A delete request
  at the URL of \<open>Fantasy\<close>, which no book references, whose form names \<open>Sci-Fi\<close>,
  which the book \<open>Dune\<close> references: \<open>Fantasy\<close> is not removed, and \<open>Sci-Fi\<close> is
  deleted with its dependent book still in the store.
\<close>

theorem genre_delete_post_bypasses_guard:
  "Book_find_genre (genre_id fantasy) library = [] \<and>
   Book_find_genre (genre_id scifi) library = [dune] \<and>
   genre_delete_post library (genre_id fantasy) (genre_id scifi) =
     \<lparr>final = library\<lparr>genres := [fantasy]\<rparr>,
      trace =
        [Db (Genre_findByIdAndDelete (genre_id scifi)), Redirect ''/catalog/genres'']\<rparr> \<and>
   Genre_findById (genre_id fantasy)
     (final (genre_delete_post library (genre_id fantasy) (genre_id scifi))) = Some fantasy \<and>
   Genre_findById (genre_id scifi) library = Some scifi \<and>
   Genre_findById (genre_id scifi)
     (final (genre_delete_post library (genre_id fantasy) (genre_id scifi))) = None"
  by (simp add: genre_delete_post_def asyncHandler_def lookup_defs example_defs)

text \<open>
  C10. The genre delete POST handler deletes the record named by the form field
  \<^verbatim>\<open>genreid\<close>, not the one of the URL parameter it fetched and checked. When the two ids
  differ and no book references the genre of the URL, the genres left are the stored
  ones less the first record with the form's id, the checked genre is found as before,
  and, ids being unique in the collection, the form's id is no longer found.
\<close>

theorem genre_delete_post_uses_body_id:
  "genreid \<noteq> i \<Longrightarrow> Book_find_genre i st = [] \<Longrightarrow>
   genres (final (genre_delete_post st i genreid)) =
     delete_first (\<lambda>g. genre_id g = genreid) (genres st) \<and>
   trace (genre_delete_post st i genreid) =
     [Db (Genre_findByIdAndDelete genreid), Redirect ''/catalog/genres''] \<and>
   Genre_findById i (final (genre_delete_post st i genreid)) = Genre_findById i st \<and>
   (distinct (map genre_id (genres st)) \<longrightarrow>
      Genre_findById genreid (final (genre_delete_post st i genreid)) = None)"
  by (auto simp: genre_delete_post_def asyncHandler_def Let_def Genre_findById_def
      find_delete_first_same find_delete_first_other)

theorem genre_delete_post_uses_body_id_witness:
  "genre_id scifi \<noteq> genre_id fantasy \<and>
   Book_find_genre (genre_id fantasy) library = [] \<and>
   distinct (map genre_id (genres library)) \<and>
   genres (final (genre_delete_post library (genre_id fantasy) (genre_id scifi))) =
     delete_first (\<lambda>g. genre_id g = genre_id scifi) (genres library) \<and>
   delete_first (\<lambda>g. genre_id g = genre_id scifi) (genres library) = [fantasy] \<and>
   trace (genre_delete_post library (genre_id fantasy) (genre_id scifi)) =
     [Db (Genre_findByIdAndDelete (genre_id scifi)), Redirect ''/catalog/genres''] \<and>
   Genre_findById (genre_id fantasy)
     (final (genre_delete_post library (genre_id fantasy) (genre_id scifi))) =
     Genre_findById (genre_id fantasy) library \<and>
   Genre_findById (genre_id fantasy) library = Some fantasy \<and>
   Genre_findById (genre_id scifi)
     (final (genre_delete_post library (genre_id fantasy) (genre_id scifi))) = None"
proof -
  have h1: "genre_id scifi \<noteq> genre_id fantasy"
    by (simp add: example_defs)
  have h2: "Book_find_genre (genre_id fantasy) library = []"
    by (simp add: lookup_defs example_defs)
  have h3: "distinct (map genre_id (genres library))"
    by (simp add: example_defs)
  have d: "delete_first (\<lambda>g. genre_id g = genre_id scifi) (genres library) = [fantasy]"
    by (simp add: example_defs)
  have f: "Genre_findById (genre_id fantasy) library = Some fantasy"
    by (simp add: lookup_defs example_defs)
  from genre_delete_post_uses_body_id [OF h1 h2] h1 h2 h3 d f show ?thesis
    by simp
qed

section \<open>Forms for records that do not exist\<close>

text \<open>
  C8, as the code has it, for a request whose id is an object id that matches no stored
  record. The genre delete-get handler issues the redirect and then renders the
  confirmation view all the same: two responses in one run. The book-instance
  update-get handler forwards the NotFound error and runs on into the render statement;
  building the data for the view faults there, so the second call of the run is that
  fault on the error channel and \<^verbatim>\<open>res.render\<close> itself is not entered. The
  book-instance delete-get handler returns with the NotFound error it forwards: one
  call, and nothing rendered.
\<close>

theorem missing_record_get_handlers:
  "cast_oid t = Some i \<Longrightarrow>
   (Genre_findById i st = None \<longrightarrow>
      genre_delete_get st t =
        \<lparr>final = st,
         trace =
           [Redirect ''/catalog/genres'',
            Render ''genre_delete''
              [(''title'', LStr ''Delete genre''),
               (''genre'', LGenre None),
               (''booksWithGenre'', LBooks (Book_find_genre i st))]]\<rparr>) \<and>
   (BookInstance_findById i st = None \<longrightarrow>
      bookinstance_update_get st t =
        \<lparr>final = st,
         trace =
           [Next (StatusError ''Instance not found'' 404), Next (TypeError ''book'')]\<rparr> \<and>
      bookinstance_delete_get st t =
        \<lparr>final = st, trace = [Next (StatusError ''Instance not found'' 404)]\<rparr>)"
  by (simp add: genre_delete_get_def bookinstance_delete_get_def bookinstance_update_get_def
      asyncHandler_def)

theorem missing_record_get_handlers_witness:
  "cast_oid ''65000000000000000000ffff'' = Some unknown_id \<and>
   Genre_findById unknown_id library = None \<and>
   genre_delete_get library ''65000000000000000000ffff'' =
     \<lparr>final = library,
      trace =
        [Redirect ''/catalog/genres'',
         Render ''genre_delete''
           [(''title'', LStr ''Delete genre''),
            (''genre'', LGenre None),
            (''booksWithGenre'', LBooks (Book_find_genre unknown_id library))]]\<rparr> \<and>
   Book_find_genre unknown_id library = [] \<and>
   BookInstance_findById unknown_id library = None \<and>
   bookinstance_update_get library ''65000000000000000000ffff'' =
     \<lparr>final = library,
      trace = [Next (StatusError ''Instance not found'' 404), Next (TypeError ''book'')]\<rparr> \<and>
   bookinstance_delete_get library ''65000000000000000000ffff'' =
     \<lparr>final = library, trace = [Next (StatusError ''Instance not found'' 404)]\<rparr>"
proof -
  have g: "Genre_findById unknown_id library = None"
    by (simp add: lookup_defs example_defs)
  have b: "BookInstance_findById unknown_id library = None"
    by (simp add: lookup_defs example_defs)
  have k: "Book_find_genre unknown_id library = []"
    by (simp add: lookup_defs example_defs)
  from g b k cast_unknown missing_record_get_handlers [OF cast_unknown, of library]
  show ?thesis
    by simp
qed

text \<open>
  The claim as written fails for the book-instance delete-get handler: on no store and
  for no id that matches no stored copy does it render anything after the error. And
  on id text that is no object id the genre delete-get handler neither redirects nor
  renders.
\<close>

theorem missing_record_get_handlers_counterexample:
  "\<not> (\<exists>st t i. cast_oid t = Some i \<and> BookInstance_findById i st = None \<and>
         list_ex is_render (trace (bookinstance_delete_get st t))) \<and>
   \<not> (\<exists>st t. cast_oid t = None \<and>
         list_ex is_render (trace (bookinstance_delete_get st t))) \<and>
   ''not-an-id'' \<notin> set (map (\<lambda>g. hex (genre_id g)) (genres library)) \<and>
   genre_delete_get library ''not-an-id'' =
     \<lparr>final = library, trace = [Next (CastError ''not-an-id'')]\<rparr>"
  by (auto simp: bookinstance_delete_get_def genre_delete_get_def asyncHandler_def
      is_render_def cast_malformed example_defs)

section \<open>Validation of book-instance forms\<close>

lemma cast_oid_empty: "cast_oid [] = None"
  by (simp add: cast_oid_def)

lemma due_back_chain_falsy: "falsy v \<Longrightarrow> due_back_chain lib v = (Inl v, [])"
  by (simp add: due_back_chain_def)

lemma chains_errors:
  "snd (bookinstance_chains lib b) =
     snd (string_chain ''book'' ''Book must be specified'' 1 (body_book b)) @
     snd (string_chain ''imprint'' ''Imprint must be specified'' 1 (body_imprint b)) @
     snd (due_back_chain lib (body_due_back b))"
  by (simp add: bookinstance_chains_def split: prod.splits)

lemma chains_due_back:
  "req_due_back (fst (bookinstance_chains lib b)) = fst (due_back_chain lib (body_due_back b))"
  by (simp add: bookinstance_chains_def split: prod.splits)

lemma chains_book:
  "req_book (fst (bookinstance_chains lib b)) = escape (trim (to_string (body_book b)))"
  by (simp add: bookinstance_chains_def string_chain_def Let_def split: prod.splits)

lemma string_chain_paths: "e \<in> set (snd (string_chain f m n v)) \<Longrightarrow> path e = f"
  by (simp add: string_chain_def Let_def split: if_splits)

text \<open>
  What the chains record: a blank imprint and a date that is neither omitted nor in
  ISO 8601 form each leave their error in the validation result.
\<close>

lemma blank_imprint_error:
  "trim (to_string (body_imprint b)) = [] \<Longrightarrow>
   \<lparr>path = ''imprint'', msg = ''Imprint must be specified'', value = []\<rparr>
     \<in> set (snd (bookinstance_chains lib b))"
  by (simp add: chains_errors string_chain_short)

lemma bad_date_error:
  "\<not> falsy (body_due_back b) \<Longrightarrow> \<not> isISO8601 lib (to_string (body_due_back b)) \<Longrightarrow>
   \<lparr>path = ''due_back'', msg = ''Invalid date'', value = to_string (body_due_back b)\<rparr>
     \<in> set (snd (bookinstance_chains lib b))"
  by (simp add: chains_errors due_back_chain_def Let_def)

lemma good_date_no_error:
  "isISO8601 lib (to_string (body_due_back b)) \<Longrightarrow>
   ''due_back'' \<notin> set (map path (snd (bookinstance_chains lib b)))"
  by (auto simp: chains_errors due_back_chain_def Let_def dest: string_chain_paths)

text \<open>
  With any validation error on record neither handler touches the store, and the form
  is rendered again when the submitted book is an object id.
\<close>

lemma validation_errors_keep_store:
  assumes "snd (bookinstance_chains lib b) \<noteq> []"
  shows "final (bookinstance_create_post lib new_id st b) = st \<and>
         final (bookinstance_update_post lib st i b) = st \<and>
         \<not> list_ex is_write (trace (bookinstance_create_post lib new_id st b)) \<and>
         \<not> list_ex is_write (trace (bookinstance_update_post lib st i b))"
proof -
  from assms obtain body errors
    where c: "bookinstance_chains lib b = (body, errors)" and e: "errors \<noteq> []"
    by (cases "bookinstance_chains lib b") simp
  show ?thesis
    by (simp add: bookinstance_create_post_def bookinstance_update_post_def asyncHandler_def
        is_write_def c e Let_def split: option.splits)
qed

lemma validation_errors_render_form:
  assumes "snd (bookinstance_chains lib b) \<noteq> []"
    and "cast_oid (escape (trim (to_string (body_book b)))) = Some selected"
  shows "trace (bookinstance_create_post lib new_id st b) =
           [Render ''bookinstance_form''
              [(''title'', LStr ''Create BookInstance''),
               (''book_list'', LBooks (Book_find_sorted st)),
               (''selected_book'', LId selected),
               (''errors'', LErrors (snd (bookinstance_chains lib b))),
               (''bookinstance'',
                LInstance (Some (new_BookInstance lib new_id
                                   (fst (bookinstance_chains lib b)))))]]"
proof -
  from assms(1) obtain body errors
    where c: "bookinstance_chains lib b = (body, errors)" and e: "errors \<noteq> []"
    by (cases "bookinstance_chains lib b") simp
  from c chains_book [of lib b] assms(2) have "cast_oid (req_book body) = Some selected"
    by simp
  then show ?thesis
    by (simp add: bookinstance_create_post_def asyncHandler_def c e Let_def
        new_BookInstance_def)
qed

lemma no_errors_no_render:
  assumes "snd (bookinstance_chains lib b) = []"
  shows "\<not> list_ex is_render (trace (bookinstance_create_post lib new_id st b)) \<and>
         \<not> list_ex is_render (trace (bookinstance_update_post lib st i b))"
proof -
  from assms obtain body where c: "bookinstance_chains lib b = (body, [])"
    by (cases "bookinstance_chains lib b") simp
  show ?thesis
    by (simp add: bookinstance_create_post_def bookinstance_update_post_def asyncHandler_def
        is_render_def c Let_def split: sum.splits option.splits)
qed

text \<open>
  C4. The rejection of a blank book does not reach the form. When the book field is
  absent or holds only white space, the validation error for it is on record and the
  store is untouched, but the document built from the request has no book, so reading
  \<^verbatim>\<open>bookInstance.book._id\<close> for the view faults before \<^verbatim>\<open>res.render\<close> is called: in
  both handlers the only call is the fault forwarded to the error channel.
\<close>

theorem bookinstance_post_blank_book_faults:
  "trim (to_string (body_book b)) = [] \<Longrightarrow>
   \<lparr>path = ''book'', msg = ''Book must be specified'', value = []\<rparr>
     \<in> set (snd (bookinstance_chains lib b)) \<and>
   bookinstance_create_post lib new_id st b =
     \<lparr>final = st, trace = [Next (TypeError ''_id'')]\<rparr> \<and>
   bookinstance_update_post lib st i b =
     \<lparr>final = st, trace = [Next (TypeError ''_id'')]\<rparr>"
  by (simp add: bookinstance_create_post_def bookinstance_update_post_def asyncHandler_def
      bookinstance_chains_def string_chain_short new_BookInstance_def cast_oid_empty
      escape_def split: prod.splits)

theorem bookinstance_post_blank_book_faults_witness:
  "trim (to_string (body_book blank_book)) = [] \<and>
   \<lparr>path = ''book'', msg = ''Book must be specified'', value = []\<rparr>
     \<in> set (snd (bookinstance_chains one_date blank_book)) \<and>
   bookinstance_create_post one_date unknown_id library blank_book =
     \<lparr>final = library, trace = [Next (TypeError ''_id'')]\<rparr> \<and>
   bookinstance_update_post one_date library (instance_id dune_copy) blank_book =
     \<lparr>final = library, trace = [Next (TypeError ''_id'')]\<rparr>"
proof -
  have h: "trim (to_string (body_book blank_book)) = []"
    by (simp add: blank_book_def string_defs)
  from bookinstance_post_blank_book_faults
         [OF h, of one_date unknown_id library "instance_id dune_copy"] h
  show ?thesis
    by simp
qed

text \<open>
  C5. When \<^verbatim>\<open>due_back\<close> is absent or empty, the only falsy values a form field can
  hold, the date chain is skipped: the field stays as submitted, unparsed, and the
  validation result holds no error for it. With a book and an imprint that are not
  blank the validation result is then empty, and neither the create nor the update
  handler renders the form again.
\<close>

theorem due_back_omitted_not_rejected:
  "falsy (body_due_back b) \<Longrightarrow>
   req_due_back (fst (bookinstance_chains lib b)) = Inl (body_due_back b) \<and>
   ''due_back'' \<notin> set (map path (snd (bookinstance_chains lib b))) \<and>
   (trim (to_string (body_book b)) \<noteq> [] \<and> trim (to_string (body_imprint b)) \<noteq> [] \<longrightarrow>
      snd (bookinstance_chains lib b) = [] \<and>
      \<not> list_ex is_render (trace (bookinstance_create_post lib new_id st b)) \<and>
      \<not> list_ex is_render (trace (bookinstance_update_post lib st i b)))"
proof (intro conjI impI)
  assume f: "falsy (body_due_back b)"
  then show "req_due_back (fst (bookinstance_chains lib b)) = Inl (body_due_back b)"
    by (simp add: chains_due_back due_back_chain_falsy)
  from f show "''due_back'' \<notin> set (map path (snd (bookinstance_chains lib b)))"
    by (auto simp: chains_errors due_back_chain_falsy dest: string_chain_paths)
  assume ok: "trim (to_string (body_book b)) \<noteq> [] \<and> trim (to_string (body_imprint b)) \<noteq> []"
  then have "1 \<le> length (trim (to_string (body_book b)))"
    and "1 \<le> length (trim (to_string (body_imprint b)))"
    by (simp_all add: Suc_le_eq)
  with f show e: "snd (bookinstance_chains lib b) = []"
    by (simp add: chains_errors due_back_chain_falsy string_chain_long)
  from no_errors_no_render [OF e]
  show "\<not> list_ex is_render (trace (bookinstance_create_post lib new_id st b))"
    and "\<not> list_ex is_render (trace (bookinstance_update_post lib st i b))"
    by simp_all
qed

theorem due_back_omitted_not_rejected_witness:
  "falsy (body_due_back no_date) \<and>
   falsy (body_due_back blank_book) \<and>
   req_due_back (fst (bookinstance_chains one_date no_date)) = Inl (body_due_back no_date) \<and>
   req_due_back (fst (bookinstance_chains one_date blank_book)) = Inl None \<and>
   ''due_back'' \<notin> set (map path (snd (bookinstance_chains one_date no_date))) \<and>
   trim (to_string (body_book no_date)) \<noteq> [] \<and>
   trim (to_string (body_imprint no_date)) \<noteq> [] \<and>
   snd (bookinstance_chains one_date no_date) = [] \<and>
   \<not> list_ex is_render (trace (bookinstance_create_post one_date unknown_id library no_date)) \<and>
   \<not> list_ex is_render
       (trace (bookinstance_update_post one_date library (instance_id dune_copy) no_date))"
proof -
  have h1: "falsy (body_due_back no_date)"
    by (simp add: falsy_def no_date_def)
  have h2: "falsy (body_due_back blank_book)"
    by (simp add: falsy_def blank_book_def)
  have n: "body_due_back blank_book = None"
    by (simp add: blank_book_def)
  have h3: "trim (to_string (body_book no_date)) \<noteq> []"
    by (simp add: no_date_def string_defs)
  have h4: "trim (to_string (body_imprint no_date)) \<noteq> []"
    by (simp add: no_date_def string_defs)
  from h1 h2 h3 h4 n
    due_back_omitted_not_rejected
      [OF h1, of one_date unknown_id library "instance_id dune_copy"]
    due_back_omitted_not_rejected [OF h2, of one_date]
  show ?thesis
    by simp
qed

end
